theory Spec2Isabelle
  imports Complex_Main
begin

section \<open>Data model\<close>

text \<open>
  The delivery simulation of \<^verbatim>\<open>backend/src/services/simulationEngine.ts\<close> and its
  caller \<^verbatim>\<open>backend/src/routes/simulation.ts\<close>.

  JavaScript numbers are modelled as exact real numbers: every formula of the engine is
  read as arithmetic on \<^typ>\<open>real\<close>, without the rounding of IEEE doubles.
  Only the fields the engine reads are kept in the records (names and timestamps of the
  documents are left out).
\<close>

datatype trafficLevel = Low | Medium | High

datatype orderStatus = Pending | InProgress | Delivered | Late

record driver =
  driver_id :: string
  currentShiftHours :: real
  pastWeekHours :: real

record route =
  route_id :: string
  distanceKm :: real
  trafficLevel :: trafficLevel
  baseTimeMinutes :: real

text \<open>
  An order as the engine sees it, after \<^verbatim>\<open>.populate('routeId')\<close>: the reference is
  replaced by the route document, or by null (\<open>None\<close>) when the referenced route no
  longer exists (routes are deleted without touching the orders that point to them).
\<close>

record order =
  order_id :: string
  valueRs :: real
  routeId :: "route option"
  status :: orderStatus

record simulationParams =
  numberOfDrivers :: nat
  routeStartTime :: string
  maxHoursPerDriver :: real

record deliveryAssignment =
  orderId :: string
  driverId :: string
  assignedRouteId :: string
  estimatedDeliveryTime :: real
  actualDeliveryTime :: real
  isOnTime :: bool
  orderValue :: real
  fuelCost :: real
  bonus :: real
  penalty :: real

record fuelBreakdown =
  baseCost :: real
  trafficSurcharge :: real
  total :: real

record simulationResult =
  totalProfit :: real
  efficiencyScore :: real
  onTimeDeliveries :: nat
  lateDeliveries :: nat
  fuelCostBreakdown :: fuelBreakdown

text \<open>
  The two ways a run ends without a result: the explicit
  \<^verbatim>\<open>throw new Error('Insufficient data for simulation. ...')\<close>, and the TypeError of
  reading \<^verbatim>\<open>route.baseTimeMinutes\<close> on a null route.
\<close>

datatype error = InsufficientData | TypeError

section \<open>The scoring formulas\<close>

text \<open>\<^verbatim>\<open>Math.round\<close>: the nearest integer, halves rounded up.\<close>

definition js_round :: "real \<Rightarrow> real" where
  "js_round x = of_int \<lfloor>x + 1 / 2\<rfloor>"

text \<open>
  \<^verbatim>\<open>simulateActualDeliveryTime\<close>; the value drawn by \<^verbatim>\<open>Math.random()\<close> is the
  explicit argument \<open>u\<close>.
\<close>

definition simulateActualDeliveryTime :: "real \<Rightarrow> real \<Rightarrow> real" where
  "simulateActualDeliveryTime u estimatedTime =
     (let variation = 2 / 10;
          randomFactor = 1 + (u - 1 / 2) * variation
      in js_round (estimatedTime * randomFactor))"

definition calculateFuelCost :: "route \<Rightarrow> real" where
  "calculateFuelCost r =
     (let base = distanceKm r * 5;
          surcharge = (if trafficLevel r = High then distanceKm r * 2 else 0)
      in base + surcharge)"

definition calculateBonus :: "real \<Rightarrow> bool \<Rightarrow> real" where
  "calculateBonus v onTime = (if v > 1000 \<and> onTime then v * (1 / 10) else 0)"

text \<open>
  Lines 90 to 108 of \<^verbatim>\<open>assignDeliveries\<close>: the base time, the fatigue rule, then
  the \<^verbatim>\<open>switch\<close> on the traffic level (no case for Low).
\<close>

definition estimatedTime :: "driver \<Rightarrow> route \<Rightarrow> real" where
  "estimatedTime d r =
     (let t = baseTimeMinutes r;
          t = (if pastWeekHours d > 8 * 7 then t * (13 / 10) else t)
      in case trafficLevel r of
           High \<Rightarrow> t * (15 / 10)
         | Medium \<Rightarrow> t * (12 / 10)
         | Low \<Rightarrow> t)"

text \<open>
  Lines 108 to 130: the assignment record built for an order, the chosen driver, the
  order's route and the random draw \<open>u\<close>.
\<close>

definition makeAssignment :: "order \<Rightarrow> driver \<Rightarrow> route \<Rightarrow> real \<Rightarrow> deliveryAssignment" where
  "makeAssignment ord d r u =
     (let est = estimatedTime d r;
          actualTime = simulateActualDeliveryTime u est;
          onTime = (actualTime \<le> baseTimeMinutes r + 10);
          fuel = calculateFuelCost r;
          pen = (if onTime then 0 else 50);
          bon = calculateBonus (valueRs ord) onTime
      in \<lparr> orderId = order_id ord,
           driverId = driver_id d,
           assignedRouteId = route_id r,
           estimatedDeliveryTime = est,
           actualDeliveryTime = actualTime,
           isOnTime = onTime,
           orderValue = valueRs ord,
           fuelCost = fuel,
           bonus = bon,
           penalty = pen \<rparr>)"

section \<open>The assignment loop\<close>

text \<open>
  \<^verbatim>\<open>driverWorkload\<close> is an object keyed by the driver's id. A comparison with a
  missing key (\<^verbatim>\<open>undefined < max\<close>) is false.
\<close>

type_synonym workload = "string \<rightharpoonup> real"

definition initWorkload :: "driver list \<Rightarrow> workload" where
  "initWorkload drivers =
     fold (\<lambda>d m. m(driver_id d \<mapsto> currentShiftHours d)) drivers Map.empty"

definition belowCap :: "workload \<Rightarrow> real \<Rightarrow> driver \<Rightarrow> bool" where
  "belowCap wl maxH d = (case wl (driver_id d) of None \<Rightarrow> False | Some h \<Rightarrow> h < maxH)"

text \<open>The sort key of a driver; the filter has removed the drivers with no entry.\<close>

definition workloadOf :: "workload \<Rightarrow> driver \<Rightarrow> real" where
  "workloadOf wl d = (case wl (driver_id d) of None \<Rightarrow> 0 | Some h \<Rightarrow> h)"

text \<open>
  \<^verbatim>\<open>drivers.filter(...).sort((a, b) => wl[a] - wl[b])[0]\<close>. The sort of an array is
  stable, as \<^const>\<open>sort_key\<close> is; element 0 of an empty array is undefined.
\<close>

definition availableDriver :: "driver list \<Rightarrow> workload \<Rightarrow> real \<Rightarrow> driver option" where
  "availableDriver drivers wl maxH =
     (case sort_key (workloadOf wl) (filter (belowCap wl maxH) drivers) of
        [] \<Rightarrow> None
      | d # _ \<Rightarrow> Some d)"

text \<open>\<^verbatim>\<open>orders.sort((a, b) => b.valueRs - a.valueRs)\<close>: descending by value, stable.\<close>

definition sortedOrders :: "order list \<Rightarrow> order list" where
  "sortedOrders orders = sort_key (\<lambda>ord. - valueRs ord) orders"

record loopState =
  assignments :: "deliveryAssignment list"
  driverWorkload :: workload

text \<open>
  The body of \<^verbatim>\<open>sortedOrders.forEach\<close>, run over the queue. \<open>rnd k\<close> is the value
  of the \<open>k\<close>-th call of \<^verbatim>\<open>Math.random()\<close>; one call is made per assignment, so the
  next draw is numbered by the assignments made so far. A null route raises, which ends
  the whole loop.
\<close>

fun assignLoop ::
  "driver list \<Rightarrow> simulationParams \<Rightarrow> (nat \<Rightarrow> real) \<Rightarrow> order list \<Rightarrow> loopState \<Rightarrow> error + loopState"
where
  "assignLoop drivers params rnd [] st = Inr st"
| "assignLoop drivers params rnd (ord # rest) st =
     (case availableDriver drivers (driverWorkload st) (maxHoursPerDriver params) of
        None \<Rightarrow> assignLoop drivers params rnd rest st
      | Some d \<Rightarrow>
          (case routeId ord of
             None \<Rightarrow> Inl TypeError
           | Some r \<Rightarrow>
               (let a = makeAssignment ord d r (rnd (length (assignments st)));
                    wl = driverWorkload st
                in assignLoop drivers params rnd rest
                     \<lparr> assignments = assignments st @ [a],
                       driverWorkload =
                         wl(driver_id d \<mapsto> workloadOf wl d + actualDeliveryTime a / 60) \<rparr>)))"

text \<open>\<^verbatim>\<open>assignDeliveries\<close>, with the final workload table kept beside the result.\<close>

definition assignDeliveriesState ::
  "driver list \<Rightarrow> order list \<Rightarrow> simulationParams \<Rightarrow> (nat \<Rightarrow> real) \<Rightarrow> error + loopState"
where
  "assignDeliveriesState drivers orders params rnd =
     assignLoop drivers params rnd (sortedOrders orders)
       \<lparr> assignments = [], driverWorkload = initWorkload drivers \<rparr>"

definition assignDeliveries ::
  "driver list \<Rightarrow> order list \<Rightarrow> simulationParams \<Rightarrow> (nat \<Rightarrow> real) \<Rightarrow> error + deliveryAssignment list"
where
  "assignDeliveries drivers orders params rnd =
     (case assignDeliveriesState drivers orders params rnd of
        Inl e \<Rightarrow> Inl e
      | Inr st \<Rightarrow> Inr (assignments st))"

section \<open>Aggregation\<close>

record totals =
  sumProfit :: real
  onTimeCount :: nat
  lateCount :: nat
  sumBaseFuel :: real
  sumSurcharge :: real

text \<open>The body of \<^verbatim>\<open>assignments.forEach\<close> in \<^verbatim>\<open>calculateResults\<close>.\<close>

definition accumulate :: "deliveryAssignment \<Rightarrow> totals \<Rightarrow> totals" where
  "accumulate a t =
     (let deliveryProfit = orderValue a + bonus a - penalty a - fuelCost a
      in \<lparr> sumProfit = sumProfit t + deliveryProfit,
           onTimeCount = (if isOnTime a then onTimeCount t + 1 else onTimeCount t),
           lateCount = (if isOnTime a then lateCount t else lateCount t + 1),
           sumBaseFuel = sumBaseFuel t + fuelCost a * (7 / 10),
           sumSurcharge = sumSurcharge t + fuelCost a * (3 / 10) \<rparr>)"

definition calculateResults :: "deliveryAssignment list \<Rightarrow> simulationResult" where
  "calculateResults as =
     (let t = fold accumulate as
                \<lparr> sumProfit = 0, onTimeCount = 0, lateCount = 0,
                  sumBaseFuel = 0, sumSurcharge = 0 \<rparr>;
          totalDeliveries = onTimeCount t + lateCount t;
          score = (if totalDeliveries > 0
                   then (of_nat (onTimeCount t) / of_nat totalDeliveries) * 100
                   else 0)
      in \<lparr> totalProfit = js_round (sumProfit t * 100) / 100,
           efficiencyScore = js_round (score * 10) / 10,
           onTimeDeliveries = onTimeCount t,
           lateDeliveries = lateCount t,
           fuelCostBreakdown =
             \<lparr> baseCost = js_round (sumBaseFuel t * 100) / 100,
               trafficSurcharge = js_round (sumSurcharge t * 100) / 100,
               total = js_round ((sumBaseFuel t + sumSurcharge t) * 100) / 100 \<rparr> \<rparr>)"

section \<open>The run and its caller\<close>

record database =
  db_drivers :: "driver list"
  db_routes :: "route list"
  db_orders :: "order list"

text \<open>\<^verbatim>\<open>.limit(n)\<close> of a query: the first \<open>n\<close> documents, and all of them for 0.\<close>

definition limit :: "nat \<Rightarrow> 'a list \<Rightarrow> 'a list" where
  "limit n xs = (if n = 0 then xs else take n xs)"

text \<open>\<^verbatim>\<open>Order.find({ status: { $in: ['Pending', 'In Progress'] } })\<close>.\<close>

definition findEligibleOrders :: "order list \<Rightarrow> order list" where
  "findEligibleOrders orders =
     filter (\<lambda>ord. status ord = Pending \<or> status ord = InProgress) orders"

definition runSimulation ::
  "database \<Rightarrow> simulationParams \<Rightarrow> (nat \<Rightarrow> real) \<Rightarrow> error + simulationResult"
where
  "runSimulation db params rnd =
     (let drivers = limit (numberOfDrivers params) (db_drivers db);
          routes = db_routes db;
          orders = findEligibleOrders (db_orders db)
      in if length drivers = 0 \<or> length routes = 0 \<or> length orders = 0
         then Inl InsufficientData
         else (case assignDeliveries drivers orders params rnd of
                 Inl e \<Rightarrow> Inl e
               | Inr as \<Rightarrow> Inr (calculateResults as)))"

text \<open>
  The handler of \<^verbatim>\<open>POST /run\<close>: the result is saved with the parameters and then
  returned; any exception of the run or of the save (the schema's \<^verbatim>\<open>min\<close> and
  \<^verbatim>\<open>max\<close> validators) is answered with status 500 and nothing is saved.
\<close>

record storedResult =
  savedResult :: simulationResult
  savedParams :: simulationParams

datatype response = Json storedResult | Status500

definition schemaValid :: "storedResult \<Rightarrow> bool" where
  "schemaValid s =
     (let r = savedResult s; f = fuelCostBreakdown r; p = savedParams s
      in 0 \<le> efficiencyScore r \<and> efficiencyScore r \<le> 100
         \<and> 0 \<le> baseCost f \<and> 0 \<le> trafficSurcharge f \<and> 0 \<le> total f
         \<and> 1 \<le> numberOfDrivers p
         \<and> 1 \<le> maxHoursPerDriver p \<and> maxHoursPerDriver p \<le> 24)"

definition postRun ::
  "database \<Rightarrow> simulationParams \<Rightarrow> (nat \<Rightarrow> real) \<Rightarrow> storedResult list
     \<Rightarrow> response \<times> storedResult list"
where
  "postRun db params rnd history =
     (case runSimulation db params rnd of
        Inl e \<Rightarrow> (Status500, history)
      | Inr result \<Rightarrow>
          (let s = \<lparr> savedResult = result, savedParams = params \<rparr>
           in if schemaValid s then (Json s, history @ [s]) else (Status500, history)))"

section \<open>The selection rule in the words of the specification\<close>


text \<open>
  The fields of an assignment that do not depend on the random draw: the order, the
  driver, the route, the estimate, the order's value and the fuel cost.
\<close>

definition stableFields ::
  "deliveryAssignment \<Rightarrow> string \<times> string \<times> string \<times> real \<times> real \<times> real"
where
  "stableFields a =
     (orderId a, driverId a, assignedRouteId a, estimatedDeliveryTime a, orderValue a, fuelCost a)"

section \<open>Example data\<close>

definition exDriver :: driver where
  "exDriver = \<lparr> driver_id = ''d1'', currentShiftHours = 0, pastWeekHours = 60 \<rparr>"

definition exRoute :: route where
  "exRoute = \<lparr> route_id = ''r1'', distanceKm = 10, trafficLevel = High, baseTimeMinutes = 40 \<rparr>"

definition exOrder :: order where
  "exOrder = \<lparr> order_id = ''o1'', valueRs = 1500, routeId = Some exRoute, status = Pending \<rparr>"

definition exParams :: simulationParams where
  "exParams = \<lparr> numberOfDrivers = 5, routeStartTime = ''09:00'', maxHoursPerDriver = 8 \<rparr>"

text \<open>A random source whose every draw is \<open>1 / 2\<close>: the random factor is 1.\<close>

definition midDraws :: "nat \<Rightarrow> real" where
  "midDraws k = 1 / 2"

text \<open>The assignment of \<open>exOrder\<close> to \<open>exDriver\<close> when the draw is \<open>1 / 2\<close>.\<close>

definition exAssignment :: deliveryAssignment where
  "exAssignment =
     \<lparr> orderId = ''o1'', driverId = ''d1'', assignedRouteId = ''r1'',
       estimatedDeliveryTime = 78, actualDeliveryTime = 78, isOnTime = False,
       orderValue = 1500, fuelCost = 70, bonus = 0, penalty = 50 \<rparr>"



text \<open>A database whose only order is already delivered, and a cap of one hour.\<close>

definition exDeliveredDb :: database where
  "exDeliveredDb =
     \<lparr> db_drivers = [exDriver], db_routes = [exRoute],
       db_orders = [\<lparr> order_id = ''o2'', valueRs = 1500, routeId = Some exRoute,
                      status = Delivered \<rparr>] \<rparr>"


text \<open>Two drivers and three orders, one of them delivered, for the assignment rule.\<close>

definition exDriverB :: driver where
  "exDriverB = \<lparr> driver_id = ''d2'', currentShiftHours = 1, pastWeekHours = 20 \<rparr>"

definition exLowRoute :: route where
  "exLowRoute = \<lparr> route_id = ''r2'', distanceKm = 10, trafficLevel = Low, baseTimeMinutes = 60 \<rparr>"

definition exOrderSmall :: order where
  "exOrderSmall = \<lparr> order_id = ''o3'', valueRs = 800, routeId = Some exLowRoute, status = InProgress \<rparr>"

definition exOrderBig :: order where
  "exOrderBig = \<lparr> order_id = ''o4'', valueRs = 2000, routeId = Some exLowRoute, status = Pending \<rparr>"


text \<open>
  A rested driver, and two random sources: every draw 0 (factor 0.9) and every draw
  \<open>9 / 10\<close> (factor 1.08).
\<close>

definition exDriverA :: driver where
  "exDriverA = \<lparr> driver_id = ''d1'', currentShiftHours = 0, pastWeekHours = 20 \<rparr>"

definition lowDraws :: "nat \<Rightarrow> real" where
  "lowDraws k = 0"

definition highDraws :: "nat \<Rightarrow> real" where
  "highDraws k = 9 / 10"

section \<open>What the loop produces\<close>

lemma makeAssignment_example: "makeAssignment exOrder exDriver exRoute (1 / 2) = exAssignment"
  by (simp add: makeAssignment_def estimatedTime_def simulateActualDeliveryTime_def
      js_round_def calculateFuelCost_def calculateBonus_def exDriver_def exOrder_def
      exRoute_def exAssignment_def Let_def)

lemma assignDeliveries_example:
  "assignDeliveries [exDriver] [exOrder] exParams midDraws = Inr [exAssignment]"
proof -
  have "assignDeliveries [exDriver] [exOrder] exParams midDraws
          = Inr [makeAssignment exOrder exDriver exRoute (1 / 2)]"
    by (simp add: assignDeliveries_def assignDeliveriesState_def sortedOrders_def
        initWorkload_def availableDriver_def belowCap_def workloadOf_def exDriver_def
        exOrder_def exParams_def midDraws_def Let_def)
  then show ?thesis by (simp only: makeAssignment_example)
qed

lemma availableDriver_Some:
  assumes "availableDriver ds wl maxH = Some d"
  shows "d \<in> set ds \<and> belowCap wl maxH d"
proof -
  from assms obtain rest where
    "sort_key (workloadOf wl) (filter (belowCap wl maxH) ds) = d # rest"
    by (auto simp: availableDriver_def split: list.splits)
  then have "d \<in> set (sort_key (workloadOf wl) (filter (belowCap wl maxH) ds))"
    by simp
  then show ?thesis by simp
qed

text \<open>
  The loop only appends, at most one assignment per order of the queue, and each new
  assignment is built by \<open>makeAssignment\<close> from an order of the queue, its route and
  the driver that \<open>availableDriver\<close> returned.
\<close>

lemma assignLoop_produced:
  "assignLoop ds p rnd q st = Inr st' \<Longrightarrow>
     \<exists>new. assignments st' = assignments st @ new \<and> length new \<le> length q \<and>
       (\<forall>a\<in>set new. \<exists>ord\<in>set q. \<exists>d\<in>set ds. \<exists>r wl k.
           availableDriver ds wl (maxHoursPerDriver p) = Some d \<and>
           routeId ord = Some r \<and> a = makeAssignment ord d r (rnd k))"
proof (induction q arbitrary: st)
  case Nil
  then show ?case by simp
next
  case (Cons ord q)
  show ?case
  proof (cases "availableDriver ds (driverWorkload st) (maxHoursPerDriver p)")
    case None
    with Cons.prems have "assignLoop ds p rnd q st = Inr st'" by simp
    from Cons.IH[OF this] show ?thesis by fastforce
  next
    case (Some d)
    note sel = this
    then have din: "d \<in> set ds" using availableDriver_Some by blast
    show ?thesis
    proof (cases "routeId ord")
      case None
      with sel Cons.prems show ?thesis by simp
    next
      case (Some r)
      define a where "a = makeAssignment ord d r (rnd (length (assignments st)))"
      define st1 where "st1 = \<lparr> assignments = assignments st @ [a],
         driverWorkload = (driverWorkload st)(driver_id d \<mapsto>
            workloadOf (driverWorkload st) d + actualDeliveryTime a / 60) \<rparr>"
      from Cons.prems sel Some have "assignLoop ds p rnd q st1 = Inr st'"
        by (simp add: Let_def a_def st1_def)
      from Cons.IH[OF this] obtain new where
        n: "assignments st' = assignments st1 @ new" "length new \<le> length q"
          "\<forall>a\<in>set new. \<exists>ord\<in>set q. \<exists>d\<in>set ds. \<exists>r wl k.
             availableDriver ds wl (maxHoursPerDriver p) = Some d \<and>
             routeId ord = Some r \<and> a = makeAssignment ord d r (rnd k)"
        by blast
      have "assignments st' = assignments st @ (a # new)"
        using n(1) by (simp add: st1_def)
      moreover have "length (a # new) \<le> length (ord # q)"
        using n(2) by simp
      moreover have "\<forall>x\<in>set (a # new). \<exists>ord\<in>set (ord # q). \<exists>d\<in>set ds. \<exists>r wl k.
             availableDriver ds wl (maxHoursPerDriver p) = Some d \<and>
             routeId ord = Some r \<and> x = makeAssignment ord d r (rnd k)"
      proof
        fix x assume "x \<in> set (a # new)"
        then consider "x = a" | "x \<in> set new" by auto
        then show "\<exists>ord\<in>set (ord # q). \<exists>d\<in>set ds. \<exists>r wl k.
             availableDriver ds wl (maxHoursPerDriver p) = Some d \<and>
             routeId ord = Some r \<and> x = makeAssignment ord d r (rnd k)"
        proof cases
          case 1
          with sel din Some a_def show ?thesis by auto
        next
          case 2
          with n(3) show ?thesis by auto
        qed
      qed
      ultimately show ?thesis by blast
    qed
  qed
qed

lemma assignDeliveries_produced:
  assumes "assignDeliveries ds os p rnd = Inr as"
  shows "length as \<le> length os"
    and "\<forall>a\<in>set as. \<exists>ord\<in>set os. \<exists>d\<in>set ds. \<exists>r wl k.
           availableDriver ds wl (maxHoursPerDriver p) = Some d \<and>
           routeId ord = Some r \<and> a = makeAssignment ord d r (rnd k)"
proof -
  from assms obtain st' where
    run: "assignLoop ds p rnd (sortedOrders os)
            \<lparr> assignments = [], driverWorkload = initWorkload ds \<rparr> = Inr st'"
    and as: "as = assignments st'"
    by (auto simp: assignDeliveries_def assignDeliveriesState_def split: sum.splits)
  from assignLoop_produced[OF run] obtain new where
    n: "assignments st' = new" "length new \<le> length (sortedOrders os)"
       "\<forall>a\<in>set new. \<exists>ord\<in>set (sortedOrders os). \<exists>d\<in>set ds. \<exists>r wl k.
           availableDriver ds wl (maxHoursPerDriver p) = Some d \<and>
           routeId ord = Some r \<and> a = makeAssignment ord d r (rnd k)"
    by auto
  show "length as \<le> length os" using n(1,2) as by (simp add: sortedOrders_def)
  show "\<forall>a\<in>set as. \<exists>ord\<in>set os. \<exists>d\<in>set ds. \<exists>r wl k.
           availableDriver ds wl (maxHoursPerDriver p) = Some d \<and>
           routeId ord = Some r \<and> a = makeAssignment ord d r (rnd k)"
    using n(1,3) as by (simp add: sortedOrders_def)
qed

section \<open>Delivery time\<close>

text \<open>
  Claim C2. The estimated delivery time of every assignment is the base time of the
  order's route, times 1.3 exactly when the chosen driver's past week hours exceed 56,
  times 1.5 for High, 1.2 for Medium and 1 for Low traffic. A driver with 60 past week
  hours on a High traffic route of base time 40 gets the estimate 78.
\<close>

theorem estimated_time_rule:
  assumes "assignDeliveries drivers orders params rnd = Inr as"
    and "a \<in> set as"
  shows "(\<exists>ord\<in>set orders. \<exists>d\<in>set drivers. \<exists>r wl.
            availableDriver drivers wl (maxHoursPerDriver params) = Some d \<and>
            routeId ord = Some r \<and>
            orderId a = order_id ord \<and> driverId a = driver_id d \<and>
            estimatedDeliveryTime a =
              baseTimeMinutes r
                * (if pastWeekHours d > 56 then 13 / 10 else 1)
                * (case trafficLevel r of High \<Rightarrow> 15 / 10 | Medium \<Rightarrow> 12 / 10 | Low \<Rightarrow> 1))
         \<and> (\<forall>d0 r0. pastWeekHours d0 = 60 \<and> trafficLevel r0 = High \<and> baseTimeMinutes r0 = 40
               \<longrightarrow> estimatedTime d0 r0 = 78)"
proof
  from assignDeliveries_produced(2)[OF assms(1)] assms(2)
  obtain ord d r wl k where
    h: "ord \<in> set orders" "d \<in> set drivers"
       "availableDriver drivers wl (maxHoursPerDriver params) = Some d"
       "routeId ord = Some r" "a = makeAssignment ord d r (rnd k)"
    by blast
  have "estimatedDeliveryTime a =
          baseTimeMinutes r
            * (if pastWeekHours d > 56 then 13 / 10 else 1)
            * (case trafficLevel r of High \<Rightarrow> 15 / 10 | Medium \<Rightarrow> 12 / 10 | Low \<Rightarrow> 1)"
    by (cases "trafficLevel r") (simp_all add: h(5) makeAssignment_def estimatedTime_def Let_def)
  moreover have "orderId a = order_id ord" "driverId a = driver_id d"
    by (simp_all add: h(5) makeAssignment_def Let_def)
  ultimately show "\<exists>ord\<in>set orders. \<exists>d\<in>set drivers. \<exists>r wl.
            availableDriver drivers wl (maxHoursPerDriver params) = Some d \<and>
            routeId ord = Some r \<and>
            orderId a = order_id ord \<and> driverId a = driver_id d \<and>
            estimatedDeliveryTime a =
              baseTimeMinutes r
                * (if pastWeekHours d > 56 then 13 / 10 else 1)
                * (case trafficLevel r of High \<Rightarrow> 15 / 10 | Medium \<Rightarrow> 12 / 10 | Low \<Rightarrow> 1)"
    using h(1-4) by blast
next
  show "\<forall>d0 r0. pastWeekHours d0 = 60 \<and> trafficLevel r0 = High \<and> baseTimeMinutes r0 = 40
               \<longrightarrow> estimatedTime d0 r0 = 78"
    by (simp add: estimatedTime_def Let_def)
qed

theorem estimated_time_rule_witness:
  "assignDeliveries [exDriver] [exOrder] exParams midDraws = Inr [exAssignment]
   \<and> exAssignment \<in> set [exAssignment]
   \<and> estimatedDeliveryTime exAssignment = 78
   \<and> pastWeekHours exDriver = 60 \<and> trafficLevel exRoute = High \<and> baseTimeMinutes exRoute = 40
   \<and> estimatedTime exDriver exRoute = 78"
proof -
  have m: "exAssignment \<in> set [exAssignment]" by simp
  have e: "pastWeekHours exDriver = 60 \<and> trafficLevel exRoute = High \<and> baseTimeMinutes exRoute = 40"
    by (simp add: exDriver_def exRoute_def)
  from estimated_time_rule[OF assignDeliveries_example m] e
  have "estimatedTime exDriver exRoute = 78" by blast
  moreover have "estimatedDeliveryTime exAssignment = 78" by (simp add: exAssignment_def)
  ultimately show ?thesis using assignDeliveries_example m e by blast
qed




section \<open>Costs, penalty and bonus\<close>

text \<open>
  Claim C4. For every assignment: the fuel cost is 5 per km plus 2 per km exactly when
  the route's traffic is High (distance 10 gives 70 for High and 50 for Low); the penalty
  is 50 exactly when the delivery is late and 0 otherwise; the bonus is a tenth of the
  order's value exactly when the value exceeds 1000 and the delivery is on time, and 0
  otherwise; bonus and penalty are never both nonzero.
\<close>

theorem cost_penalty_bonus:
  assumes "assignDeliveries drivers orders params rnd = Inr as"
    and "a \<in> set as"
  shows "(\<exists>ord\<in>set orders. \<exists>r.
            routeId ord = Some r \<and> orderId a = order_id ord \<and> orderValue a = valueRs ord \<and>
            fuelCost a = distanceKm r * 5 + (if trafficLevel r = High then distanceKm r * 2 else 0) \<and>
            penalty a = (if isOnTime a then 0 else 50) \<and>
            bonus a = (if valueRs ord > 1000 \<and> isOnTime a then valueRs ord * (10 / 100) else 0))
         \<and> \<not> (bonus a \<noteq> 0 \<and> penalty a \<noteq> 0)
         \<and> (\<forall>r0. distanceKm r0 = 10 \<longrightarrow>
               (trafficLevel r0 = High \<longrightarrow> calculateFuelCost r0 = 70) \<and>
               (trafficLevel r0 = Low \<longrightarrow> calculateFuelCost r0 = 50))"
proof -
  from assignDeliveries_produced(2)[OF assms(1)] assms(2)
  obtain ord d r wl k where
    h: "ord \<in> set orders" "routeId ord = Some r" "a = makeAssignment ord d r (rnd k)"
    by blast
  have f: "fuelCost a = distanceKm r * 5 + (if trafficLevel r = High then distanceKm r * 2 else 0)"
    by (simp add: h(3) makeAssignment_def calculateFuelCost_def Let_def)
  have p: "penalty a = (if isOnTime a then 0 else 50)"
    by (simp add: h(3) makeAssignment_def Let_def)
  have b: "bonus a = (if valueRs ord > 1000 \<and> isOnTime a then valueRs ord * (10 / 100) else 0)"
    by (simp add: h(3) makeAssignment_def calculateBonus_def Let_def)
  have i: "orderId a = order_id ord" "orderValue a = valueRs ord"
    by (simp_all add: h(3) makeAssignment_def Let_def)
  have x: "\<not> (bonus a \<noteq> 0 \<and> penalty a \<noteq> 0)"
    using p b by (cases "isOnTime a") simp_all
  have e: "\<forall>r0. distanceKm r0 = 10 \<longrightarrow>
               (trafficLevel r0 = High \<longrightarrow> calculateFuelCost r0 = 70) \<and>
               (trafficLevel r0 = Low \<longrightarrow> calculateFuelCost r0 = 50)"
    by (simp add: calculateFuelCost_def Let_def)
  from h(1,2) f p b i have "\<exists>ord\<in>set orders. \<exists>r.
            routeId ord = Some r \<and> orderId a = order_id ord \<and> orderValue a = valueRs ord \<and>
            fuelCost a = distanceKm r * 5 + (if trafficLevel r = High then distanceKm r * 2 else 0) \<and>
            penalty a = (if isOnTime a then 0 else 50) \<and>
            bonus a = (if valueRs ord > 1000 \<and> isOnTime a then valueRs ord * (10 / 100) else 0)"
    by blast
  with x e show ?thesis by blast
qed

theorem cost_penalty_bonus_witness:
  "assignDeliveries [exDriver] [exOrder] exParams midDraws = Inr [exAssignment]
   \<and> exAssignment \<in> set [exAssignment]
   \<and> fuelCost exAssignment = 70 \<and> penalty exAssignment = 50 \<and> bonus exAssignment = 0
   \<and> \<not> (bonus exAssignment \<noteq> 0 \<and> penalty exAssignment \<noteq> 0)
   \<and> distanceKm exRoute = 10 \<and> trafficLevel exRoute = High \<and> calculateFuelCost exRoute = 70"
proof -
  have m: "exAssignment \<in> set [exAssignment]" by simp
  have e: "distanceKm exRoute = 10" "trafficLevel exRoute = High"
    by (simp_all add: exRoute_def)
  from cost_penalty_bonus[OF assignDeliveries_example m] e
  have "calculateFuelCost exRoute = 70" by blast
  moreover have "fuelCost exAssignment = 70 \<and> penalty exAssignment = 50 \<and> bonus exAssignment = 0"
    by (simp add: exAssignment_def)
  ultimately show ?thesis using assignDeliveries_example e by simp
qed


section \<open>Aggregation of the assignments\<close>
















section \<open>Efficiency score\<close>






section \<open>Fuel cost breakdown\<close>





section \<open>Insufficient data\<close>

lemma limit_empty: "limit n xs = [] \<longleftrightarrow> xs = []"
  by (cases xs) (simp_all add: limit_def)

lemma assignLoop_error: "assignLoop ds p rnd q st = Inl e \<Longrightarrow> e = TypeError"
proof (induction q arbitrary: st)
  case Nil
  then show ?case by simp
next
  case (Cons ord q)
  then show ?case
    by (auto simp: Let_def split: option.splits)
qed

lemma assignDeliveries_error: "assignDeliveries ds os p rnd = Inl e \<Longrightarrow> e = TypeError"
  by (auto simp: assignDeliveries_def assignDeliveriesState_def split: sum.splits
      dest: assignLoop_error)

text \<open>
  Claim C9. The run fails with the insufficient-data error if and only if the driver
  pool, the route catalogue or the pool of Pending and In Progress orders is empty. When
  the run fails, the handler answers with status 500 and the history of saved results is
  unchanged; a result is answered only when the run returned one, and it is that one.
\<close>

theorem insufficient_data_rule:
  "(runSimulation db params rnd = Inl InsufficientData
      \<longleftrightarrow> limit (numberOfDrivers params) (db_drivers db) = []
          \<or> db_routes db = []
          \<or> findEligibleOrders (db_orders db) = [])
   \<and> (limit (numberOfDrivers params) (db_drivers db) = [] \<longleftrightarrow> db_drivers db = [])
   \<and> (runSimulation db params rnd = Inl e
        \<longrightarrow> postRun db params rnd history = (Status500, history))
   \<and> (fst (postRun db params rnd history) = Json s
        \<longrightarrow> runSimulation db params rnd = Inr (savedResult s)
            \<and> snd (postRun db params rnd history) = history @ [s])"
proof -
  have a: "runSimulation db params rnd = Inl InsufficientData
      \<longleftrightarrow> limit (numberOfDrivers params) (db_drivers db) = []
          \<or> db_routes db = []
          \<or> findEligibleOrders (db_orders db) = []"
  proof (cases "limit (numberOfDrivers params) (db_drivers db) = []
          \<or> db_routes db = [] \<or> findEligibleOrders (db_orders db) = []")
    case True
    then show ?thesis by (auto simp: runSimulation_def Let_def)
  next
    case False
    then have "runSimulation db params rnd \<noteq> Inl InsufficientData"
      by (auto simp: runSimulation_def Let_def split: sum.splits
          dest: assignDeliveries_error)
    with False show ?thesis by simp
  qed
  have b: "runSimulation db params rnd = Inl e
        \<longrightarrow> postRun db params rnd history = (Status500, history)"
    by (simp add: postRun_def)
  have c: "fst (postRun db params rnd history) = Json s
        \<longrightarrow> runSimulation db params rnd = Inr (savedResult s)
            \<and> snd (postRun db params rnd history) = history @ [s]"
    by (auto simp: postRun_def Let_def split: sum.splits if_splits)
  from a b c limit_empty show ?thesis by blast
qed

theorem insufficient_data_rule_witness:
  "runSimulation exDeliveredDb exParams midDraws = Inl InsufficientData
   \<and> findEligibleOrders (db_orders exDeliveredDb) = []
   \<and> postRun exDeliveredDb exParams midDraws [] = (Status500, [])"
proof -
  have e: "findEligibleOrders (db_orders exDeliveredDb) = []"
    by (simp add: findEligibleOrders_def exDeliveredDb_def)
  from insufficient_data_rule[of exDeliveredDb exParams midDraws InsufficientData "[]"] e
  show ?thesis by blast
qed

section \<open>The cap on driver hours\<close>





section \<open>The assignment rule\<close>













section \<open>Two runs on the same input\<close>

lemma stableFields_makeAssignment:
  "stableFields (makeAssignment ord d r u) = stableFields (makeAssignment ord d r u')"
  by (simp add: stableFields_def makeAssignment_def Let_def)

text \<open>
  Two walks of the same queue from states with the same workload table: as long as the
  actual delivery times of the new assignments coincide, the next new assignment is of
  the same order to the same driver.
\<close>

lemma assignLoop_agree:
  assumes "assignLoop ds p rnd1 q st1 = Inr st1'"
    and "assignLoop ds p rnd2 q st2 = Inr st2'"
    and "driverWorkload st1 = driverWorkload st2"
    and "assignments st1' = assignments st1 @ new1"
    and "assignments st2' = assignments st2 @ new2"
    and "map actualDeliveryTime (take n new1) = map actualDeliveryTime (take n new2)"
  shows "map stableFields (take (Suc n) new1) = map stableFields (take (Suc n) new2)"
  using assms
proof (induction q arbitrary: st1 st2 new1 new2 n)
  case Nil
  then show ?case by simp
next
  case (Cons ord q)
  let ?sel = "availableDriver ds (driverWorkload st1) (maxHoursPerDriver p)"
  have sel2: "availableDriver ds (driverWorkload st2) (maxHoursPerDriver p) = ?sel"
    by (simp only: Cons.prems(3))
  show ?case
  proof (cases ?sel)
    case None
    with Cons.prems(1) have r1: "assignLoop ds p rnd1 q st1 = Inr st1'" by simp
    from None sel2 Cons.prems(2) have r2: "assignLoop ds p rnd2 q st2 = Inr st2'" by simp
    from Cons.IH[OF r1 r2 Cons.prems(3) Cons.prems(4) Cons.prems(5) Cons.prems(6)]
    show ?thesis .
  next
    case (Some d)
    note sel = this
    show ?thesis
    proof (cases "routeId ord")
      case None
      with sel Cons.prems(1) show ?thesis by simp
    next
      case (Some r)
      define a1 where "a1 = makeAssignment ord d r (rnd1 (length (assignments st1)))"
      define a2 where "a2 = makeAssignment ord d r (rnd2 (length (assignments st2)))"
      define n1 where "n1 = \<lparr> assignments = assignments st1 @ [a1],
         driverWorkload = (driverWorkload st1)(driver_id d \<mapsto>
            workloadOf (driverWorkload st1) d + actualDeliveryTime a1 / 60) \<rparr>"
      define n2 where "n2 = \<lparr> assignments = assignments st2 @ [a2],
         driverWorkload = (driverWorkload st2)(driver_id d \<mapsto>
            workloadOf (driverWorkload st2) d + actualDeliveryTime a2 / 60) \<rparr>"
      from Cons.prems(1) sel Some have r1: "assignLoop ds p rnd1 q n1 = Inr st1'"
        by (simp add: Let_def a1_def n1_def)
      from Cons.prems(2) sel sel2 Some have r2: "assignLoop ds p rnd2 q n2 = Inr st2'"
        by (simp add: Let_def a2_def n2_def)
      from assignLoop_produced[OF r1] obtain m1 where
        m1: "assignments st1' = assignments n1 @ m1" by blast
      from assignLoop_produced[OF r2] obtain m2 where
        m2: "assignments st2' = assignments n2 @ m2" by blast
      have new1: "new1 = a1 # m1"
        using m1 Cons.prems(4) by (simp add: n1_def)
      have new2: "new2 = a2 # m2"
        using m2 Cons.prems(5) by (simp add: n2_def)
      have sf: "stableFields a1 = stableFields a2"
        unfolding a1_def a2_def by (rule stableFields_makeAssignment)
      show ?thesis
      proof (cases n)
        case 0
        then show ?thesis by (simp add: new1 new2 sf)
      next
        case (Suc k)
        from Cons.prems(6) have act: "actualDeliveryTime a1 = actualDeliveryTime a2"
          and rest: "map actualDeliveryTime (take k m1) = map actualDeliveryTime (take k m2)"
          by (simp_all add: Suc new1 new2)
        have wl: "driverWorkload n1 = driverWorkload n2"
          by (simp add: n1_def n2_def Cons.prems(3) act)
        from Cons.IH[OF r1 r2 wl m1 m2 rest]
        have "map stableFields (take (Suc k) m1) = map stableFields (take (Suc k) m2)" .
        then show ?thesis
          by (simp add: Suc new1 new2 sf)
      qed
    qed
  qed
qed

lemma assignDeliveries_low:
  "map_sum id (map driverId)
     (assignDeliveries [exDriverA, exDriverB] [exOrderBig, exOrderSmall] exParams lowDraws)
   = Inr [''d1'', ''d1'']"
  by (simp add: assignDeliveries_def assignDeliveriesState_def sortedOrders_def
      initWorkload_def availableDriver_def belowCap_def workloadOf_def
      makeAssignment_def estimatedTime_def simulateActualDeliveryTime_def js_round_def
      calculateFuelCost_def calculateBonus_def exDriverA_def exDriverB_def exOrderBig_def
      exOrderSmall_def exLowRoute_def exParams_def lowDraws_def Let_def)

lemma assignDeliveries_high:
  "map_sum id (map driverId)
     (assignDeliveries [exDriverA, exDriverB] [exOrderBig, exOrderSmall] exParams highDraws)
   = Inr [''d1'', ''d2'']"
  by (simp add: assignDeliveries_def assignDeliveriesState_def sortedOrders_def
      initWorkload_def availableDriver_def belowCap_def workloadOf_def
      makeAssignment_def estimatedTime_def simulateActualDeliveryTime_def js_round_def
      calculateFuelCost_def calculateBonus_def exDriverA_def exDriverB_def exOrderBig_def
      exOrderSmall_def exLowRoute_def exParams_def highDraws_def Let_def)

text \<open>
  Claim C8, as amended. Two runs on the same drivers, orders and parameters that differ
  only in the random draws agree on the order, driver, route, estimate, order value and
  fuel cost of their first \<open>n + 1\<close> assignments whenever the actual delivery times of their
  first \<open>n\<close> assignments coincide; in particular they always agree on the first
  assignment.
\<close>

theorem runs_agree_while_times_agree:
  assumes "assignDeliveries drivers orders params rnd1 = Inr as1"
    and "assignDeliveries drivers orders params rnd2 = Inr as2"
    and "map actualDeliveryTime (take n as1) = map actualDeliveryTime (take n as2)"
  shows "map stableFields (take (Suc n) as1) = map stableFields (take (Suc n) as2)"
proof -
  let ?st0 = "\<lparr> assignments = [], driverWorkload = initWorkload drivers \<rparr>"
  from assms(1) obtain st1 where
    r1: "assignLoop drivers params rnd1 (sortedOrders orders) ?st0 = Inr st1"
    and a1: "assignments st1 = assignments ?st0 @ as1"
    by (auto simp: assignDeliveries_def assignDeliveriesState_def split: sum.splits)
  from assms(2) obtain st2 where
    r2: "assignLoop drivers params rnd2 (sortedOrders orders) ?st0 = Inr st2"
    and a2: "assignments st2 = assignments ?st0 @ as2"
    by (auto simp: assignDeliveries_def assignDeliveriesState_def split: sum.splits)
  from assignLoop_agree[OF r1 r2 refl a1 a2 assms(3)] show ?thesis .
qed

lemma assignDeliveries_example_low:
  "assignDeliveries [exDriver] [exOrder] exParams lowDraws
     = Inr [exAssignment\<lparr> actualDeliveryTime := 70 \<rparr>]"
  by (simp add: assignDeliveries_def assignDeliveriesState_def sortedOrders_def
      initWorkload_def availableDriver_def belowCap_def workloadOf_def
      makeAssignment_def estimatedTime_def simulateActualDeliveryTime_def js_round_def
      calculateFuelCost_def calculateBonus_def exDriver_def exOrder_def exRoute_def
      exAssignment_def exParams_def lowDraws_def Let_def)

theorem runs_agree_while_times_agree_witness:
  "assignDeliveries [exDriver] [exOrder] exParams midDraws = Inr [exAssignment]
   \<and> assignDeliveries [exDriver] [exOrder] exParams lowDraws
       = Inr [exAssignment\<lparr> actualDeliveryTime := 70 \<rparr>]
   \<and> map actualDeliveryTime (take 0 [exAssignment])
       = map actualDeliveryTime (take 0 [exAssignment\<lparr> actualDeliveryTime := 70 \<rparr>])
   \<and> map stableFields (take (Suc 0) [exAssignment])
       = map stableFields (take (Suc 0) [exAssignment\<lparr> actualDeliveryTime := 70 \<rparr>])
   \<and> actualDeliveryTime exAssignment
       \<noteq> actualDeliveryTime (exAssignment\<lparr> actualDeliveryTime := 70 \<rparr>)"
proof -
  have t: "map actualDeliveryTime (take 0 [exAssignment])
       = map actualDeliveryTime (take 0 [exAssignment\<lparr> actualDeliveryTime := 70 \<rparr>])"
    by simp
  have d: "actualDeliveryTime exAssignment
       \<noteq> actualDeliveryTime (exAssignment\<lparr> actualDeliveryTime := 70 \<rparr>)"
    by (simp add: exAssignment_def)
  from runs_agree_while_times_agree[OF assignDeliveries_example assignDeliveries_example_low t]
  show ?thesis using assignDeliveries_example assignDeliveries_example_low t d by blast
qed

text \<open>
  The driver of a later assignment does depend on the draws: with every draw 0 the first
  delivery takes 54 minutes and the second order goes to the same driver; with every draw
  \<open>9 / 10\<close> it takes 65 minutes, the first driver's workload passes the second driver's,
  and the second order goes to the other driver.
\<close>

theorem driver_selection_counterexample:
  "map_sum id (map driverId)
     (assignDeliveries [exDriverA, exDriverB] [exOrderBig, exOrderSmall] exParams lowDraws)
     = Inr [''d1'', ''d1'']
   \<and> map_sum id (map driverId)
     (assignDeliveries [exDriverA, exDriverB] [exOrderBig, exOrderSmall] exParams highDraws)
     = Inr [''d1'', ''d2'']
   \<and> map_sum id (map driverId)
     (assignDeliveries [exDriverA, exDriverB] [exOrderBig, exOrderSmall] exParams lowDraws)
     \<noteq> map_sum id (map driverId)
     (assignDeliveries [exDriverA, exDriverB] [exOrderBig, exOrderSmall] exParams highDraws)"
  by (simp add: assignDeliveries_low assignDeliveries_high)


end
